theory Spec2Isabelle
  imports Main
begin

section \<open>Python values: exception classes, exceptions, outcomes\<close>

text \<open>
  The breaker tests values with \<^verbatim>\<open>isinstance\<close> against \<^verbatim>\<open>Exception\<close>, \<^verbatim>\<open>ConnectionError\<close>
  and \<^verbatim>\<open>Response\<close>, and catches with \<^verbatim>\<open>except Exception\<close>. The classes below are
  the builtin ones the source names (it imports nothing that rebinds \<^verbatim>\<open>ConnectionError\<close>,
  so that name is Python's builtin class, a subclass of \<^verbatim>\<open>OSError\<close>), the two classes the
  module declares, \<^verbatim>\<open>KeyboardInterrupt\<close> as a builtin that derives from
  \<^verbatim>\<open>BaseException\<close> only, and \<open>Derived name base\<close> for any other class declared
  with one base class.
\<close>

datatype pyclass =
    BaseException_cls
  | Exception_cls
  | TypeError_cls
  | OSError_cls
  | ConnectionError_cls
  | KeyboardInterrupt_cls
  | CircuitBreakerError_cls
  | CircuitBreakerOpenedError_cls
  | Derived string pyclass

text \<open>The method resolution order of a class: the class itself, then its bases.\<close>

fun mro :: "pyclass \<Rightarrow> pyclass list" where
  "mro BaseException_cls = [BaseException_cls]"
| "mro Exception_cls = [Exception_cls, BaseException_cls]"
| "mro TypeError_cls = [TypeError_cls, Exception_cls, BaseException_cls]"
| "mro OSError_cls = [OSError_cls, Exception_cls, BaseException_cls]"
| "mro ConnectionError_cls =
     [ConnectionError_cls, OSError_cls, Exception_cls, BaseException_cls]"
| "mro KeyboardInterrupt_cls = [KeyboardInterrupt_cls, BaseException_cls]"
| "mro CircuitBreakerError_cls =
     [CircuitBreakerError_cls, Exception_cls, BaseException_cls]"
| "mro CircuitBreakerOpenedError_cls =
     [CircuitBreakerOpenedError_cls, CircuitBreakerError_cls, Exception_cls,
      BaseException_cls]"
| "mro (Derived name base) = Derived name base # mro base"

definition issubclass :: "pyclass \<Rightarrow> pyclass \<Rightarrow> bool" where
  "issubclass c d = (d \<in> set (mro c))"

text \<open>An exception object: its class and its arguments (here one string).\<close>

datatype pyexc = PyExc (exc_class: pyclass) (exc_args: string)

text \<open>
  The values a wrapped operation can hand back: an exception object, a
  \<^verbatim>\<open>requests.models.Response\<close> with the integer status code the transport read from
  the wire, or any other object.
\<close>

datatype pyval = ExcVal pyexc | ResponseVal int | ObjVal string

fun isinstance :: "pyval \<Rightarrow> pyclass \<Rightarrow> bool" where
  "isinstance (ExcVal e) c = issubclass (exc_class e) c"
| "isinstance (ResponseVal status_code) c = False"
| "isinstance (ObjVal name) c = False"

text \<open>What running \<^verbatim>\<open>func(*func_args, **func_kwargs)\<close> does: return or raise.\<close>

datatype outcome = Returned pyval | Raised pyexc

section \<open>State, FailureCounter and the storage protocol\<close>

datatype State = State_open | State_half_open | State_closed

text \<open>A naive UTC \<^verbatim>\<open>datetime\<close>, as a count of microseconds.\<close>

type_synonym timestamp = int

record FailureCounter =
  total_failures :: int
  last_failure_dt :: "timestamp option"

text \<open>
  \<^verbatim>\<open>CircuitBreakerStorageProtocol\<close>: the three members the breaker uses of the storage
  object it is given. The storage object's own state has type \<open>'s\<close>;
  \<open>increment_counter\<close> is given the clock reading it stamps the failure with.
\<close>

record 's CircuitBreakerStorageProtocol =
  increment_counter :: "timestamp \<Rightarrow> 's \<Rightarrow> 's"
  reset_counter :: "'s \<Rightarrow> 's"
  failure_counter :: "'s \<Rightarrow> FailureCounter"

text \<open>
  Modelled from the spec: the in-memory Storage of section 4.1, which the source file
  does not contain (it only names the protocol). \<^verbatim>\<open>increment_counter\<close> adds one to
  \<^verbatim>\<open>total_failures\<close> and sets \<^verbatim>\<open>last_failure_time\<close> to the current time,
  \<^verbatim>\<open>reset_counter\<close> sets the count to 0 and the time to none, and the read returns the
  counter.
\<close>

definition memory_storage :: "FailureCounter CircuitBreakerStorageProtocol" where
  "memory_storage =
     \<lparr>increment_counter = (\<lambda>t c. \<lparr>total_failures = total_failures c + 1,
                                     last_failure_dt = Some t\<rparr>),
      reset_counter = (\<lambda>c. \<lparr>total_failures = 0, last_failure_dt = None\<rparr>),
      failure_counter = (\<lambda>c. c)\<rparr>"

section \<open>The world a call runs in\<close>

text \<open>
  \<open>store\<close> is the state of the storage object, \<open>env\<close> whatever the wrapped operation can
  read and change, and \<open>events\<close> a log of what ran, oldest first: one entry each time the
  wrapped operation is invoked, \<^verbatim>\<open>record_failure\<close> runs or \<^verbatim>\<open>reset\<close> runs.
\<close>

datatype event = Op_invoked | Failure_recorded | Counter_reset

record ('s, 'e) world =
  store :: 's
  env :: 'e
  events :: "event list"

section \<open>CircuitBreaker\<close>

record 's CircuitBreaker =
  storage :: "'s CircuitBreakerStorageProtocol"
  failure_threshold :: int
  failure_checker :: "(pyval \<Rightarrow> pyexc + bool) option"

definition CircuitBreaker_init ::
  "'s CircuitBreakerStorageProtocol \<Rightarrow> (pyval \<Rightarrow> pyexc + bool) option \<Rightarrow> 's CircuitBreaker"
where
  "CircuitBreaker_init storage_arg failure_checker_arg =
     \<lparr>storage = storage_arg, failure_threshold = 100,
      failure_checker = failure_checker_arg\<rparr>"

text \<open>
  Comparing \<^verbatim>\<open>None >= datetime\<close> raises \<^verbatim>\<open>TypeError\<close>.
\<close>

definition none_ge_datetime :: pyexc where
  "none_ge_datetime = PyExc TypeError_cls
     ''>= not supported between instances of NoneType and datetime.datetime''"

text \<open>
  The \<^verbatim>\<open>state\<close> property; \<open>now\<close> is what \<^verbatim>\<open>datetime.datetime.utcnow()\<close> returns.
\<close>

definition state :: "'s CircuitBreaker \<Rightarrow> timestamp \<Rightarrow> 's \<Rightarrow> pyexc + State" where
  "state self now s =
     (let counter = failure_counter (storage self) s in
      if total_failures counter > failure_threshold self then
        (case last_failure_dt counter of
           None \<Rightarrow> Inl none_ge_datetime
         | Some dt \<Rightarrow> if dt \<ge> now then Inr State_half_open else Inr State_open)
      else Inr State_closed)"

definition reset :: "'s CircuitBreaker \<Rightarrow> ('s, 'e) world \<Rightarrow> ('s, 'e) world" where
  "reset self w =
     w\<lparr>store := reset_counter (storage self) (store w),
       events := events w @ [Counter_reset]\<rparr>"

definition record_failure ::
  "'s CircuitBreaker \<Rightarrow> timestamp \<Rightarrow> ('s, 'e) world \<Rightarrow> ('s, 'e) world" where
  "record_failure self t w =
     w\<lparr>store := increment_counter (storage self) t (store w),
       events := events w @ [Failure_recorded]\<rparr>"

definition default_failure_checker :: "pyval \<Rightarrow> bool" where
  "default_failure_checker result = isinstance result Exception_cls"

definition check_failure :: "'s CircuitBreaker \<Rightarrow> pyval \<Rightarrow> pyexc + bool" where
  "check_failure self result =
     (case failure_checker self of
        None \<Rightarrow> Inr (default_failure_checker result)
      | Some checker \<Rightarrow> checker result)"

definition add_failure_checker ::
  "'s CircuitBreaker \<Rightarrow> (pyval \<Rightarrow> pyexc + bool) \<Rightarrow> 's CircuitBreaker" where
  "add_failure_checker self func = self\<lparr>failure_checker := Some func\<rparr>"

text \<open>
  \<^verbatim>\<open>__call__\<close>, from the line after the \<^verbatim>\<open>try\<close> statement: classify, book-keep, then
  raise or return. \<open>t\<close> is the clock reading the storage stamps a failure with.
\<close>

definition classify_and_finish ::
  "'s CircuitBreaker \<Rightarrow> timestamp \<Rightarrow> pyval \<Rightarrow> ('s, 'e) world
     \<Rightarrow> (pyexc + pyval) \<times> ('s, 'e) world" where
  "classify_and_finish self t result w =
     (case check_failure self result of
        Inl err \<Rightarrow> (Inl err, w)
      | Inr is_failure \<Rightarrow>
          (let w' = (if is_failure then record_failure self t w else reset self w) in
           case result of
             ExcVal e \<Rightarrow>
               if issubclass (exc_class e) Exception_cls then (Inl e, w')
               else (Inr result, w')
           | _ \<Rightarrow> (Inr result, w')))"

text \<open>
  \<^verbatim>\<open>__call__\<close>. \<open>func\<close> is the wrapped operation with its arguments applied; it runs on
  \<open>env\<close>. \<^verbatim>\<open>except Exception\<close> catches instances of \<^verbatim>\<open>Exception\<close> only: any other
  raised object leaves the method at once.
\<close>

definition call ::
  "'s CircuitBreaker \<Rightarrow> timestamp \<Rightarrow> timestamp \<Rightarrow> ('e \<Rightarrow> outcome \<times> 'e) \<Rightarrow> ('s, 'e) world
     \<Rightarrow> (pyexc + pyval) \<times> ('s, 'e) world" where
  "call self now t func w =
     (case state self now (store w) of
        Inl err \<Rightarrow> (Inl err, w)
      | Inr st \<Rightarrow>
          if st = State_open then (Inl (PyExc CircuitBreakerError_cls []), w)
          else
            (case func (env w) of (out, env') \<Rightarrow>
               (let w1 = w\<lparr>env := env', events := events w @ [Op_invoked]\<rparr> in
                case out of
                  Returned v \<Rightarrow> classify_and_finish self t v w1
                | Raised e \<Rightarrow>
                    if issubclass (exc_class e) Exception_cls
                    then classify_and_finish self t (ExcVal e) w1
                    else (Inl e, w1))))"

section \<open>CircuitBreakerAdapter\<close>

record 's CircuitBreakerAdapter =
  circuit_breaker :: "'s CircuitBreaker"

definition has_failure :: "pyval \<Rightarrow> bool" where
  "has_failure result =
     (if isinstance result ConnectionError_cls then True
      else (case result of
              ResponseVal status_code \<Rightarrow> if status_code \<ge> 500 then True else False
            | _ \<Rightarrow> False))"

text \<open>
  \<^verbatim>\<open>send\<close>: \<open>super_send\<close> is \<^verbatim>\<open>HTTPAdapter.send\<close> with the arguments applied. The
  adapter's breaker is mutated, so the adapter is returned too.
\<close>

definition send ::
  "'s CircuitBreakerAdapter \<Rightarrow> timestamp \<Rightarrow> timestamp \<Rightarrow> ('e \<Rightarrow> outcome \<times> 'e)
     \<Rightarrow> ('s, 'e) world
     \<Rightarrow> 's CircuitBreakerAdapter \<times> (pyexc + pyval) \<times> ('s, 'e) world" where
  "send self now t super_send w =
     (let cb = add_failure_checker (circuit_breaker self) (\<lambda>r. Inr (has_failure r));
          self' = self\<lparr>circuit_breaker := cb\<rparr>
      in (self', call cb now t super_send w))"

section \<open>Constructing a breaker\<close>

text \<open>
  What \<^verbatim>\<open>CircuitBreaker(*args, **kwargs)\<close> may be given. \<^verbatim>\<open>__init__\<close> is declared
  \<^verbatim>\<open>def __init__(self, storage, failure_checker=None)\<close>, so Python binds at most two
  positional arguments and the keywords \<^verbatim>\<open>storage\<close> and \<^verbatim>\<open>failure_checker\<close>, each
  parameter once, and raises \<^verbatim>\<open>TypeError\<close> for any other argument list. The result is the
  value bound to \<^verbatim>\<open>storage\<close> and, when one was passed, the value bound to
  \<^verbatim>\<open>failure_checker\<close>.
\<close>

datatype 's ctor_arg =
    Storage_arg "'s CircuitBreakerStorageProtocol"
  | Checker_arg "pyval \<Rightarrow> pyexc + bool"
  | None_arg
  | Int_arg int

definition init_type_error :: pyexc where
  "init_type_error = PyExc TypeError_cls ''__init__(): bad argument list''"

definition bind_init_args ::
  "'a list \<Rightarrow> (string \<times> 'a) list \<Rightarrow> pyexc + ('a \<times> 'a option)" where
  "bind_init_args args kwargs =
     (if \<not> list_all (\<lambda>k. k = ''storage'' \<or> k = ''failure_checker'') (map fst kwargs)
      then Inl init_type_error
      else
        (case (args, map_of kwargs ''storage'', map_of kwargs ''failure_checker'') of
           ([], Some s, fc) \<Rightarrow> Inr (s, fc)
         | ([s], None, fc) \<Rightarrow> Inr (s, fc)
         | ([s, fc], None, None) \<Rightarrow> Inr (s, Some fc)
         | _ \<Rightarrow> Inl init_type_error))"

section \<open>Scenario A: one call after another\<close>

text \<open>
  A caller that invokes the breaker once per pair of clock readings (the one
  \<^verbatim>\<open>state\<close> reads and the one the storage stamps a failure with), catches whatever a
  call raises, and collects the results.
\<close>

fun repeat_call ::
  "'s CircuitBreaker \<Rightarrow> (timestamp \<times> timestamp) list \<Rightarrow> ('e \<Rightarrow> outcome \<times> 'e)
     \<Rightarrow> ('s, 'e) world \<Rightarrow> (pyexc + pyval) list \<times> ('s, 'e) world" where
  "repeat_call self [] func w = ([], w)"
| "repeat_call self ((now, t) # ts) func w =
     (case call self now t func w of (r, w') \<Rightarrow>
        (case repeat_call self ts func w' of (rs, w'') \<Rightarrow> (r # rs, w'')))"

section \<open>Stub operations and checkers\<close>

text \<open>
  Stub operations whose \<open>env\<close> is their own invocation count: one that always raises
  the given exception and one that always returns the given value. \<open>always_failure\<close> is
  a failure checker that reports failure for every outcome.
\<close>

definition raising_stub :: "pyexc \<Rightarrow> nat \<Rightarrow> outcome \<times> nat" where
  "raising_stub e n = (Raised e, Suc n)"

definition returning_stub :: "pyval \<Rightarrow> nat \<Rightarrow> outcome \<times> nat" where
  "returning_stub v n = (Returned v, Suc n)"

definition always_failure :: "pyval \<Rightarrow> pyexc + bool" where
  "always_failure result = Inr True"

text \<open>
  The value bound to \<^verbatim>\<open>result\<close> when control reaches the line after the \<^verbatim>\<open>try\<close>
  statement of \<^verbatim>\<open>__call__\<close>: the returned value, or the raised exception when
  \<^verbatim>\<open>except Exception\<close> catches it; none when the raised object passes the handler.
\<close>

definition captured :: "outcome \<Rightarrow> pyval option" where
  "captured out =
     (case out of
        Returned v \<Rightarrow> Some v
      | Raised e \<Rightarrow> if issubclass (exc_class e) Exception_cls then Some (ExcVal e) else None)"

text \<open>
  \<^verbatim>\<open>requests.exceptions.ConnectionError\<close>, the exception \<^verbatim>\<open>HTTPAdapter.send\<close> raises
  when the connection fails (it wraps the socket's \<^verbatim>\<open>OSError\<close> in it). The requests
  library declares \<^verbatim>\<open>class RequestException(IOError)\<close> and
  \<^verbatim>\<open>class ConnectionError(RequestException)\<close>, and \<^verbatim>\<open>IOError\<close> is \<^verbatim>\<open>OSError\<close>: the
  class shares the builtin \<^verbatim>\<open>ConnectionError\<close>'s name and is not derived from it.
\<close>

definition requests_ConnectionError :: pyclass where
  "requests_ConnectionError =
     Derived ''requests.exceptions.ConnectionError''
       (Derived ''requests.exceptions.RequestException'' OSError_cls)"

text \<open>
  A failure checker written for responses, \<^verbatim>\<open>lambda r: r.status_code >= 500\<close>: on a
  value with no \<^verbatim>\<open>status_code\<close> attribute, an exception object among them, the attribute
  access raises \<^verbatim>\<open>AttributeError\<close>.
\<close>

definition no_status_code :: pyexc where
  "no_status_code = PyExc (Derived ''AttributeError'' Exception_cls) ''status_code''"

definition status_code_checker :: "pyval \<Rightarrow> pyexc + bool" where
  "status_code_checker result =
     (case result of
        ResponseVal status_code \<Rightarrow> Inr (status_code \<ge> 500)
      | _ \<Rightarrow> Inl no_status_code)"

section \<open>The derived state\<close>

lemma state_cases:
  "state self now s =
     (if total_failures (failure_counter (storage self) s) \<le> failure_threshold self
      then Inr State_closed
      else case last_failure_dt (failure_counter (storage self) s) of
             None \<Rightarrow> Inl none_ge_datetime
           | Some dt \<Rightarrow> if now \<le> dt then Inr State_half_open else Inr State_open)"
  by (simp add: state_def Let_def not_le)

text \<open>
  C2. For every storage snapshot, threshold and current time, the derived state is
  half-open when the failure count exceeds the threshold and the last failure time is at
  or after the current time, open when the count exceeds the threshold and the last
  failure time is before the current time, and closed whenever the count is at most the
  threshold, whatever the timestamp (a missing one included).
\<close>

theorem state_derivation:
  "(failure_threshold self < total_failures (failure_counter (storage self) s) \<and>
    last_failure_dt (failure_counter (storage self) s) = Some dt \<and> now \<le> dt
      \<longrightarrow> state self now s = Inr State_half_open) \<and>
   (failure_threshold self < total_failures (failure_counter (storage self) s) \<and>
    last_failure_dt (failure_counter (storage self) s) = Some dt \<and> dt < now
      \<longrightarrow> state self now s = Inr State_open) \<and>
   (total_failures (failure_counter (storage self) s) \<le> failure_threshold self
      \<longrightarrow> state self now s = Inr State_closed)"
  by (simp add: state_cases)

text \<open>
  The three cases at threshold 100 and time 5: count 101 with last failure at 7, count 101
  with last failure at 3, and count 100 with and without a timestamp.
\<close>

theorem state_derivation_witness:
  "state (CircuitBreaker_init memory_storage None) 5
     \<lparr>total_failures = 101, last_failure_dt = Some 7\<rparr> = Inr State_half_open \<and>
   state (CircuitBreaker_init memory_storage None) 5
     \<lparr>total_failures = 101, last_failure_dt = Some 3\<rparr> = Inr State_open \<and>
   state (CircuitBreaker_init memory_storage None) 5
     \<lparr>total_failures = 100, last_failure_dt = Some 7\<rparr> = Inr State_closed \<and>
   state (CircuitBreaker_init memory_storage None) 5
     \<lparr>total_failures = 100, last_failure_dt = None\<rparr> = Inr State_closed"
  using state_derivation [of "CircuitBreaker_init memory_storage None"
          "\<lparr>total_failures = 101, last_failure_dt = Some 7\<rparr>" 7 5]
        state_derivation [of "CircuitBreaker_init memory_storage None"
          "\<lparr>total_failures = 101, last_failure_dt = Some 3\<rparr>" 3 5]
        state_derivation [of "CircuitBreaker_init memory_storage None"
          "\<lparr>total_failures = 100, last_failure_dt = Some 7\<rparr>" 7 5]
        state_derivation [of "CircuitBreaker_init memory_storage None"
          "\<lparr>total_failures = 100, last_failure_dt = None\<rparr>" 0 5]
  by (simp add: CircuitBreaker_init_def memory_storage_def)

text \<open>
  C9. Reading the state fails with a \<^verbatim>\<open>TypeError\<close> exactly when the failure count
  exceeds the threshold and no last-failure timestamp is recorded; so under the invariant
  that a positive count comes with a timestamp, and a threshold that is not negative, the
  read returns a state.
\<close>

theorem state_none_timestamp:
  "(failure_threshold self < total_failures (failure_counter (storage self) s) \<and>
    last_failure_dt (failure_counter (storage self) s) = None
      \<longrightarrow> state self now s = Inl none_ge_datetime \<and>
          exc_class none_ge_datetime = TypeError_cls) \<and>
   ((\<exists>err. state self now s = Inl err) =
      (failure_threshold self < total_failures (failure_counter (storage self) s) \<and>
       last_failure_dt (failure_counter (storage self) s) = None)) \<and>
   ((0 < total_failures (failure_counter (storage self) s)
       \<longrightarrow> last_failure_dt (failure_counter (storage self) s) \<noteq> None) \<and>
    0 \<le> failure_threshold self
      \<longrightarrow> (\<exists>st. state self now s = Inr st))"
  by (auto simp add: state_cases none_ge_datetime_def split: option.splits)

text \<open>
  Count 101 over threshold 100: without a timestamp the read raises, with one it returns.
\<close>

theorem state_none_timestamp_witness:
  "state (CircuitBreaker_init memory_storage None) 5
     \<lparr>total_failures = 101, last_failure_dt = None\<rparr> = Inl none_ge_datetime \<and>
   exc_class none_ge_datetime = TypeError_cls \<and>
   (\<exists>st. state (CircuitBreaker_init memory_storage None) 5
     \<lparr>total_failures = 101, last_failure_dt = Some 2\<rparr> = Inr st)"
  using state_none_timestamp [of "CircuitBreaker_init memory_storage None"
          "\<lparr>total_failures = 101, last_failure_dt = None\<rparr>" 5]
        state_none_timestamp [of "CircuitBreaker_init memory_storage None"
          "\<lparr>total_failures = 101, last_failure_dt = Some 2\<rparr>" 5]
  by (simp add: CircuitBreaker_init_def memory_storage_def)

section \<open>The wrapping protocol\<close>

lemma call_state_error:
  "state self now (store w) = Inl err \<Longrightarrow> call self now t func w = (Inl err, w)"
  by (simp add: call_def)

lemma call_open:
  "state self now (store w) = Inr State_open \<Longrightarrow>
   call self now t func w = (Inl (PyExc CircuitBreakerError_cls []), w)"
  by (simp add: call_def)

lemma call_returned:
  "state self now (store w) = Inr st \<Longrightarrow> st \<noteq> State_open \<Longrightarrow>
   func (env w) = (Returned v, env') \<Longrightarrow>
   call self now t func w =
     classify_and_finish self t v (w\<lparr>env := env', events := events w @ [Op_invoked]\<rparr>)"
  by (simp add: call_def Let_def)

lemma call_raised_exception:
  "state self now (store w) = Inr st \<Longrightarrow> st \<noteq> State_open \<Longrightarrow>
   func (env w) = (Raised e, env') \<Longrightarrow> issubclass (exc_class e) Exception_cls \<Longrightarrow>
   call self now t func w =
     classify_and_finish self t (ExcVal e) (w\<lparr>env := env', events := events w @ [Op_invoked]\<rparr>)"
  by (simp add: call_def Let_def)

lemma call_raised_other:
  "state self now (store w) = Inr st \<Longrightarrow> st \<noteq> State_open \<Longrightarrow>
   func (env w) = (Raised e, env') \<Longrightarrow> \<not> issubclass (exc_class e) Exception_cls \<Longrightarrow>
   call self now t func w = (Inl e, w\<lparr>env := env', events := events w @ [Op_invoked]\<rparr>)"
  by (simp add: call_def Let_def)

lemma call_captured:
  "state self now (store w) = Inr st \<Longrightarrow> st \<noteq> State_open \<Longrightarrow>
   func (env w) = (out, env') \<Longrightarrow> captured out = Some r \<Longrightarrow>
   call self now t func w =
     classify_and_finish self t r (w\<lparr>env := env', events := events w @ [Op_invoked]\<rparr>)"
  by (cases out)
     (auto simp add: captured_def call_returned call_raised_exception split: if_splits)

lemma call_not_captured:
  "state self now (store w) = Inr st \<Longrightarrow> st \<noteq> State_open \<Longrightarrow>
   func (env w) = (out, env') \<Longrightarrow> captured out = None \<Longrightarrow>
   \<exists>e. out = Raised e \<and>
     call self now t func w = (Inl e, w\<lparr>env := env', events := events w @ [Op_invoked]\<rparr>)"
  by (cases out) (auto simp add: captured_def call_raised_other split: if_splits)

lemma classify_and_finish_checked:
  "check_failure self r = Inr b \<Longrightarrow>
   classify_and_finish self t r w =
     (if isinstance r Exception_cls then (case r of ExcVal e \<Rightarrow> Inl e | _ \<Rightarrow> Inr r) else Inr r,
      if b then record_failure self t w else reset self w)"
  by (cases r) (simp_all add: classify_and_finish_def Let_def)

lemma memory_storage_reset:
  "failure_counter memory_storage (reset_counter memory_storage c) =
     \<lparr>total_failures = 0, last_failure_dt = None\<rparr>"
  by (simp add: memory_storage_def)

text \<open>
  C1. For every breaker whose derived state is open, a call raises at once and leaves
  the world as it was: the wrapped operation does not run, its invocation count and the
  storage are unchanged. The exception raised is \<^verbatim>\<open>CircuitBreakerError()\<close>, an instance
  of the base class; it is not an instance of \<^verbatim>\<open>CircuitBreakerOpenedError\<close>, the
  class the module declares for this rejection.
\<close>

theorem call_open_raises_base_error:
  "state self now (store w) = Inr State_open \<Longrightarrow>
   call self now t func w = (Inl (PyExc CircuitBreakerError_cls []), w) \<and>
   \<not> isinstance (ExcVal (PyExc CircuitBreakerError_cls [])) CircuitBreakerOpenedError_cls"
  by (simp add: call_open issubclass_def)

text \<open>
  A breaker with 101 recorded failures, the last at time 0, called at time 1 around a stub
  that counts its invocations.
\<close>

theorem call_open_raises_base_error_witness:
  "call (CircuitBreaker_init memory_storage None) 1 1 (returning_stub (ObjVal ''ok''))
     \<lparr>store = \<lparr>total_failures = 101, last_failure_dt = Some 0\<rparr>, env = 0, events = []\<rparr>
   = (Inl (PyExc CircuitBreakerError_cls []),
      \<lparr>store = \<lparr>total_failures = 101, last_failure_dt = Some 0\<rparr>, env = 0, events = []\<rparr>) \<and>
   \<not> isinstance (ExcVal (PyExc CircuitBreakerError_cls [])) CircuitBreakerOpenedError_cls"
  using call_open_raises_base_error [of "CircuitBreaker_init memory_storage None" 1
     "\<lparr>store = \<lparr>total_failures = 101, last_failure_dt = Some 0\<rparr>, env = 0, events = []\<rparr>"
     1 "returning_stub (ObjVal ''ok'')"]
  by (simp add: state_cases CircuitBreaker_init_def memory_storage_def)

text \<open>
  C4, as amended. For every call in which the wrapped operation is invoked (the state
  is read and is not open) and either returns a value or raises an instance of
  \<^verbatim>\<open>Exception\<close>, and the active failure checker returns a verdict on that outcome:
  exactly one bookkeeping operation runs after the invocation and before control leaves
  the call, \<^verbatim>\<open>record_failure\<close> (the storage's increment) when the verdict is failure and
  \<^verbatim>\<open>reset\<close> (the storage's reset, which for the in-memory storage yields count 0 and no
  timestamp whatever the counter was) otherwise. When the operation raises an object that
  is not an instance of \<^verbatim>\<open>Exception\<close>, that object leaves the call at once and no
  bookkeeping runs.
\<close>

theorem call_bookkeeping_once:
  "state self now (store w) = Inr st \<Longrightarrow> st \<noteq> State_open \<Longrightarrow>
   func (env w) = (out, env') \<Longrightarrow>
   (captured out = Some r \<and> check_failure self r = Inr is_failure \<longrightarrow>
      snd (call self now t func w) =
        (if is_failure
         then record_failure self t (w\<lparr>env := env', events := events w @ [Op_invoked]\<rparr>)
         else reset self (w\<lparr>env := env', events := events w @ [Op_invoked]\<rparr>)) \<and>
      events (snd (call self now t func w)) =
        events w @ [Op_invoked, if is_failure then Failure_recorded else Counter_reset] \<and>
      store (snd (call self now t func w)) =
        (if is_failure then increment_counter (storage self) t (store w)
         else reset_counter (storage self) (store w))) \<and>
   (captured out = None \<longrightarrow>
      events (snd (call self now t func w)) = events w @ [Op_invoked] \<and>
      store (snd (call self now t func w)) = store w) \<and>
   failure_counter memory_storage (reset_counter memory_storage c) =
     \<lparr>total_failures = 0, last_failure_dt = None\<rparr>"
proof -
  assume st: "state self now (store w) = Inr st" "st \<noteq> State_open"
    and out: "func (env w) = (out, env')"
  let ?w1 = "w\<lparr>env := env', events := events w @ [Op_invoked]\<rparr>"
  have some: "captured out = Some r \<and> check_failure self r = Inr is_failure \<longrightarrow>
      snd (call self now t func w) =
        (if is_failure then record_failure self t ?w1 else reset self ?w1) \<and>
      events (snd (call self now t func w)) =
        events w @ [Op_invoked, if is_failure then Failure_recorded else Counter_reset] \<and>
      store (snd (call self now t func w)) =
        (if is_failure then increment_counter (storage self) t (store w)
         else reset_counter (storage self) (store w))"
    using st out
    by (simp add: call_captured classify_and_finish_checked record_failure_def reset_def)
  have none: "captured out = None \<longrightarrow>
      events (snd (call self now t func w)) = events w @ [Op_invoked] \<and>
      store (snd (call self now t func w)) = store w"
    using call_not_captured [where self = self and now = now and w = w and st = st
        and func = func and out = out and env' = env' and t = t] st out
    by auto
  show ?thesis
    using some none memory_storage_reset by blast
qed

text \<open>
  A success after three recorded failures resets the in-memory counter to zero; a
  failure under \<open>always_failure\<close> increments it; a raised \<^verbatim>\<open>KeyboardInterrupt\<close> does
  neither.
\<close>

theorem call_bookkeeping_once_witness:
  "snd (call (CircuitBreaker_init memory_storage None) 0 9 (returning_stub (ResponseVal 200))
     \<lparr>store = \<lparr>total_failures = 3, last_failure_dt = Some 0\<rparr>, env = 0, events = []\<rparr>)
   = \<lparr>store = \<lparr>total_failures = 0, last_failure_dt = None\<rparr>, env = 1,
      events = [Op_invoked, Counter_reset]\<rparr> \<and>
   snd (call (CircuitBreaker_init memory_storage (Some always_failure)) 0 9
     (returning_stub (ResponseVal 200))
     \<lparr>store = \<lparr>total_failures = 3, last_failure_dt = Some 0\<rparr>, env = 0, events = []\<rparr>)
   = \<lparr>store = \<lparr>total_failures = 4, last_failure_dt = Some 9\<rparr>, env = 1,
      events = [Op_invoked, Failure_recorded]\<rparr> \<and>
   events (snd (call (CircuitBreaker_init memory_storage None) 0 9
     (raising_stub (PyExc KeyboardInterrupt_cls []))
     \<lparr>store = \<lparr>total_failures = 3, last_failure_dt = Some 0\<rparr>, env = 0, events = []\<rparr>))
   = [Op_invoked]"
  using call_bookkeeping_once [where self = "CircuitBreaker_init memory_storage None"
      and now = 0 and t = 9 and func = "returning_stub (ResponseVal 200)"
      and w = "\<lparr>store = \<lparr>total_failures = 3, last_failure_dt = Some 0\<rparr>, env = 0, events = []\<rparr>"
      and st = State_closed and out = "Returned (ResponseVal 200)" and env' = 1
      and r = "ResponseVal 200" and is_failure = False
      and c = "\<lparr>total_failures = 3, last_failure_dt = Some 0\<rparr>"]
    call_bookkeeping_once [where self = "CircuitBreaker_init memory_storage (Some always_failure)"
      and now = 0 and t = 9 and func = "returning_stub (ResponseVal 200)"
      and w = "\<lparr>store = \<lparr>total_failures = 3, last_failure_dt = Some 0\<rparr>, env = 0, events = []\<rparr>"
      and st = State_closed and out = "Returned (ResponseVal 200)" and env' = 1
      and r = "ResponseVal 200" and is_failure = True
      and c = "\<lparr>total_failures = 3, last_failure_dt = Some 0\<rparr>"]
    call_bookkeeping_once [where self = "CircuitBreaker_init memory_storage None"
      and now = 0 and t = 9 and func = "raising_stub (PyExc KeyboardInterrupt_cls [])"
      and w = "\<lparr>store = \<lparr>total_failures = 3, last_failure_dt = Some 0\<rparr>, env = 0, events = []\<rparr>"
      and st = State_closed and out = "Raised (PyExc KeyboardInterrupt_cls [])" and env' = 1
      and r = "ResponseVal 200" and is_failure = False
      and c = "\<lparr>total_failures = 3, last_failure_dt = Some 0\<rparr>"]
  by (simp add: state_cases CircuitBreaker_init_def memory_storage_def returning_stub_def
      raising_stub_def captured_def check_failure_def default_failure_checker_def
      always_failure_def issubclass_def record_failure_def reset_def)

text \<open>
  The claim as stated fails where the operation raises \<^verbatim>\<open>KeyboardInterrupt\<close>: the state
  is closed, the operation is invoked, the default checker is total, and the call ends
  with neither \<^verbatim>\<open>record_failure\<close> nor \<^verbatim>\<open>reset\<close> having run.
\<close>

theorem call_bookkeeping_counterexample:
  "state (CircuitBreaker_init memory_storage None) 0
     \<lparr>total_failures = 3, last_failure_dt = Some 0\<rparr> = Inr State_closed \<and>
   check_failure (CircuitBreaker_init memory_storage None)
     (ExcVal (PyExc KeyboardInterrupt_cls [])) = Inr False \<and>
   call (CircuitBreaker_init memory_storage None) 0 0
     (raising_stub (PyExc KeyboardInterrupt_cls []))
     \<lparr>store = \<lparr>total_failures = 3, last_failure_dt = Some 0\<rparr>, env = 0, events = []\<rparr>
   = (Inl (PyExc KeyboardInterrupt_cls []),
      \<lparr>store = \<lparr>total_failures = 3, last_failure_dt = Some 0\<rparr>, env = 1,
       events = [Op_invoked]\<rparr>)"
  by (simp add: call_def state_cases CircuitBreaker_init_def memory_storage_def
      raising_stub_def issubclass_def check_failure_def default_failure_checker_def)

text \<open>
  C5, as amended. For every error the wrapped operation raises inside a call that
  reached it, and on which the active failure checker returns a verdict: after
  bookkeeping has run, the call raises exactly that error value, the same class and
  arguments, not wrapped or replaced. (An object that is not an instance of
  \<^verbatim>\<open>Exception\<close> is not caught at all, and leaves the call unchanged too.)
\<close>

theorem call_reraises_same_error:
  "state self now (store w) = Inr st \<Longrightarrow> st \<noteq> State_open \<Longrightarrow>
   func (env w) = (Raised e, env') \<Longrightarrow>
   check_failure self (ExcVal e) = Inr is_failure \<Longrightarrow>
   fst (call self now t func w) = Inl e \<and>
   (issubclass (exc_class e) Exception_cls \<longrightarrow>
      snd (call self now t func w) =
        (if is_failure
         then record_failure self t (w\<lparr>env := env', events := events w @ [Op_invoked]\<rparr>)
         else reset self (w\<lparr>env := env', events := events w @ [Op_invoked]\<rparr>)))"
  by (cases "issubclass (exc_class e) Exception_cls")
     (simp_all add: call_raised_exception call_raised_other classify_and_finish_checked)

text \<open>
  A stub raising an instance of a class derived from \<^verbatim>\<open>Exception\<close>, under the default
  checker: the failure is recorded and the same exception comes out.
\<close>

theorem call_reraises_same_error_witness:
  "call (CircuitBreaker_init memory_storage None) 0 9
     (raising_stub (PyExc (Derived ''Timeout'' Exception_cls) ''slow''))
     \<lparr>store = \<lparr>total_failures = 3, last_failure_dt = Some 0\<rparr>, env = 0, events = []\<rparr>
   = (Inl (PyExc (Derived ''Timeout'' Exception_cls) ''slow''),
      \<lparr>store = \<lparr>total_failures = 4, last_failure_dt = Some 9\<rparr>, env = 1,
       events = [Op_invoked, Failure_recorded]\<rparr>)"
  using call_reraises_same_error [where self = "CircuitBreaker_init memory_storage None"
      and now = 0 and t = 9
      and func = "raising_stub (PyExc (Derived ''Timeout'' Exception_cls) ''slow'')"
      and w = "\<lparr>store = \<lparr>total_failures = 3, last_failure_dt = Some 0\<rparr>, env = 0, events = []\<rparr>"
      and st = State_closed and e = "PyExc (Derived ''Timeout'' Exception_cls) ''slow''"
      and env' = 1 and is_failure = True]
  by (simp add: state_cases CircuitBreaker_init_def memory_storage_def raising_stub_def
      check_failure_def default_failure_checker_def issubclass_def record_failure_def
      prod_eq_iff)

text \<open>
  The claim as stated fails where the checker itself raises on the captured error: the
  state is closed, the operation raises a \<^verbatim>\<open>Timeout\<close>, \<open>status_code_checker\<close> raises
  \<^verbatim>\<open>AttributeError\<close> on it, and that exception leaves the call in place of the
  operation's error, with no bookkeeping done.
\<close>

theorem call_reraises_counterexample:
  "state (CircuitBreaker_init memory_storage (Some status_code_checker)) 0
     \<lparr>total_failures = 3, last_failure_dt = Some 0\<rparr> = Inr State_closed \<and>
   call (CircuitBreaker_init memory_storage (Some status_code_checker)) 0 9
     (raising_stub (PyExc (Derived ''Timeout'' Exception_cls) ''slow''))
     \<lparr>store = \<lparr>total_failures = 3, last_failure_dt = Some 0\<rparr>, env = 0, events = []\<rparr>
   = (Inl no_status_code,
      \<lparr>store = \<lparr>total_failures = 3, last_failure_dt = Some 0\<rparr>, env = 1,
       events = [Op_invoked]\<rparr>) \<and>
   no_status_code \<noteq> PyExc (Derived ''Timeout'' Exception_cls) ''slow''"
  by (simp add: call_def state_cases CircuitBreaker_init_def memory_storage_def
      raising_stub_def issubclass_def classify_and_finish_def check_failure_def
      status_code_checker_def no_status_code_def)

text \<open>
  C10. When the wrapped operation returns normally and the returned value is an instance
  of \<^verbatim>\<open>Exception\<close>, a breaker with no checker installed classifies it as a failure,
  records the failure, and raises the returned value instead of returning it: the call
  does what it does when the operation raises that value.
\<close>

theorem returned_exception_is_raised:
  "failure_checker self = None \<Longrightarrow>
   state self now (store w) = Inr st \<Longrightarrow> st \<noteq> State_open \<Longrightarrow>
   func (env w) = (Returned (ExcVal e), env') \<Longrightarrow>
   issubclass (exc_class e) Exception_cls \<Longrightarrow>
   check_failure self (ExcVal e) = Inr True \<and>
   call self now t func w =
     (Inl e, record_failure self t (w\<lparr>env := env', events := events w @ [Op_invoked]\<rparr>)) \<and>
   call self now t func w = call self now t (\<lambda>x. (Raised e, snd (func x))) w"
  by (simp add: call_returned call_raised_exception classify_and_finish_checked
      check_failure_def default_failure_checker_def)

text \<open>A stub that returns a \<^verbatim>\<open>TypeError\<close> object as its value.\<close>

theorem returned_exception_is_raised_witness:
  "call (CircuitBreaker_init memory_storage None) 0 9
     (returning_stub (ExcVal (PyExc TypeError_cls ''bad'')))
     \<lparr>store = \<lparr>total_failures = 3, last_failure_dt = Some 0\<rparr>, env = 0, events = []\<rparr>
   = (Inl (PyExc TypeError_cls ''bad''),
      \<lparr>store = \<lparr>total_failures = 4, last_failure_dt = Some 9\<rparr>, env = 1,
       events = [Op_invoked, Failure_recorded]\<rparr>)"
  using returned_exception_is_raised [where self = "CircuitBreaker_init memory_storage None"
      and now = 0 and t = 9
      and func = "returning_stub (ExcVal (PyExc TypeError_cls ''bad''))"
      and w = "\<lparr>store = \<lparr>total_failures = 3, last_failure_dt = Some 0\<rparr>, env = 0, events = []\<rparr>"
      and st = State_closed and e = "PyExc TypeError_cls ''bad''" and env' = 1]
  by (simp add: state_cases CircuitBreaker_init_def memory_storage_def returning_stub_def
      issubclass_def record_failure_def)

section \<open>Failure checkers\<close>

text \<open>
  C6. For every outcome value, the default failure checker returns true exactly when
  the value is an exception object whose class has \<^verbatim>\<open>Exception\<close> among its bases (an
  \<^verbatim>\<open>Exception\<close> instance), and false for every other value; and it is the checker a
  breaker applies when none has been installed.
\<close>

theorem default_checker_exception_instances:
  "default_failure_checker v = (\<exists>e. v = ExcVal e \<and> Exception_cls \<in> set (mro (exc_class e))) \<and>
   (failure_checker self = None \<longrightarrow> check_failure self v = Inr (default_failure_checker v))"
  by (cases v) (simp_all add: default_failure_checker_def check_failure_def issubclass_def)

text \<open>
  An instance of a class derived from \<^verbatim>\<open>Exception\<close> is a failure; a 503 response and
  a \<^verbatim>\<open>KeyboardInterrupt\<close> object are not.
\<close>

theorem default_checker_exception_instances_witness:
  "check_failure (CircuitBreaker_init memory_storage None)
     (ExcVal (PyExc (Derived ''Timeout'' Exception_cls) ''slow'')) = Inr True \<and>
   check_failure (CircuitBreaker_init memory_storage None) (ResponseVal 503) = Inr False \<and>
   check_failure (CircuitBreaker_init memory_storage None)
     (ExcVal (PyExc KeyboardInterrupt_cls [])) = Inr False"
  using default_checker_exception_instances [of
          "ExcVal (PyExc (Derived ''Timeout'' Exception_cls) ''slow'')"
          "CircuitBreaker_init memory_storage None"]
        default_checker_exception_instances [of "ResponseVal 503"
          "CircuitBreaker_init memory_storage None"]
        default_checker_exception_instances [of "ExcVal (PyExc KeyboardInterrupt_cls [])"
          "CircuitBreaker_init memory_storage None"]
  by (simp add: CircuitBreaker_init_def)

lemma has_failure_iff:
  "has_failure v = (isinstance v ConnectionError_cls \<or> (\<exists>sc. v = ResponseVal sc \<and> 500 \<le> sc))"
  by (cases v) (simp_all add: has_failure_def)

lemma state_add_failure_checker:
  "state (add_failure_checker self f) now s = state self now s"
  by (simp add: state_def add_failure_checker_def)

lemma bookkeeping_add_failure_checker:
  "record_failure (add_failure_checker self f) t w = record_failure self t w"
  "reset (add_failure_checker self f) w = reset self w"
  by (simp_all add: record_failure_def reset_def add_failure_checker_def)

lemma check_failure_installed:
  "check_failure (add_failure_checker self f) r = f r"
  by (simp add: check_failure_def add_failure_checker_def)

lemma send_captured:
  assumes "state (circuit_breaker self) now (store w) = Inr st" "st \<noteq> State_open"
    "super_send (env w) = (out, env')" "captured out = Some r"
  shows "snd (send self now t super_send w) =
     (if isinstance r Exception_cls then (case r of ExcVal e \<Rightarrow> Inl e | _ \<Rightarrow> Inr r) else Inr r,
      if has_failure r
      then record_failure (circuit_breaker self) t
             (w\<lparr>env := env', events := events w @ [Op_invoked]\<rparr>)
      else reset (circuit_breaker self) (w\<lparr>env := env', events := events w @ [Op_invoked]\<rparr>))"
proof -
  let ?cb = "add_failure_checker (circuit_breaker self) (\<lambda>r. Inr (has_failure r))"
  have st: "state ?cb now (store w) = Inr st"
    using assms(1) by (simp add: state_add_failure_checker)
  have chk: "check_failure ?cb r = Inr (has_failure r)"
    by (simp add: check_failure_installed)
  have "call ?cb now t super_send w =
          classify_and_finish ?cb t r (w\<lparr>env := env', events := events w @ [Op_invoked]\<rparr>)"
    using st assms(2-4) by (rule call_captured)
  then show ?thesis
    by (simp add: send_def Let_def classify_and_finish_checked [OF chk]
        bookkeeping_add_failure_checker)
qed

text \<open>
  Every \<^verbatim>\<open>send\<close> installs \<^verbatim>\<open>has_failure\<close> as the breaker's checker before it calls
  the breaker, whatever checker was there. \<^verbatim>\<open>has_failure\<close> classifies an instance of
  the builtin \<^verbatim>\<open>ConnectionError\<close> as failure and a response with status code at least
  500 as failure, and every other outcome as success; a \<^verbatim>\<open>send\<close> that reaches the
  transport records a failure or resets the counter accordingly.
\<close>

lemma adapter_checker_classifies:
  "failure_checker (circuit_breaker (fst (send self now t super_send w))) =
     Some (\<lambda>r. Inr (has_failure r)) \<and>
   (isinstance v ConnectionError_cls \<longrightarrow> has_failure v) \<and>
   (500 \<le> sc \<longrightarrow> has_failure (ResponseVal sc)) \<and>
   (\<not> isinstance v ConnectionError_cls \<and> (\<forall>c. v = ResponseVal c \<longrightarrow> c < 500)
      \<longrightarrow> \<not> has_failure v) \<and>
   (state (circuit_breaker self) now (store w) = Inr st \<and> st \<noteq> State_open \<and>
    super_send (env w) = (out, env') \<and> captured out = Some r \<longrightarrow>
      events (snd (snd (send self now t super_send w))) =
        events w @ [Op_invoked, if has_failure r then Failure_recorded else Counter_reset] \<and>
      store (snd (snd (send self now t super_send w))) =
        (if has_failure r
         then increment_counter (storage (circuit_breaker self)) t (store w)
         else reset_counter (storage (circuit_breaker self)) (store w)))"
proof -
  have "failure_checker (circuit_breaker (fst (send self now t super_send w))) =
     Some (\<lambda>r. Inr (has_failure r))"
    by (simp add: send_def Let_def add_failure_checker_def)
  moreover have "isinstance v ConnectionError_cls \<longrightarrow> has_failure v"
    by (simp add: has_failure_iff)
  moreover have "500 \<le> sc \<longrightarrow> has_failure (ResponseVal sc)"
    by (simp add: has_failure_iff)
  moreover have "\<not> isinstance v ConnectionError_cls \<and> (\<forall>c. v = ResponseVal c \<longrightarrow> c < 500)
      \<longrightarrow> \<not> has_failure v"
    by (auto simp add: has_failure_iff)
  moreover have "state (circuit_breaker self) now (store w) = Inr st \<and> st \<noteq> State_open \<and>
    super_send (env w) = (out, env') \<and> captured out = Some r \<longrightarrow>
      events (snd (snd (send self now t super_send w))) =
        events w @ [Op_invoked, if has_failure r then Failure_recorded else Counter_reset] \<and>
      store (snd (snd (send self now t super_send w))) =
        (if has_failure r
         then increment_counter (storage (circuit_breaker self)) t (store w)
         else reset_counter (storage (circuit_breaker self)) (store w))"
    by (auto simp add: send_captured record_failure_def reset_def)
  ultimately show ?thesis by blast
qed

text \<open>
  On an adapter whose breaker had \<open>always_failure\<close> installed and three recorded
  failures: a raised builtin \<^verbatim>\<open>ConnectionRefusedError\<close> and a 503 response record a
  failure, a 200 and a 404 response reset the counter.
\<close>

lemma adapter_checker_classifies_examples:
  "snd (snd (send \<lparr>circuit_breaker = CircuitBreaker_init memory_storage (Some always_failure)\<rparr>
     0 9 (raising_stub (PyExc (Derived ''ConnectionRefusedError'' ConnectionError_cls) []))
     \<lparr>store = \<lparr>total_failures = 3, last_failure_dt = Some 0\<rparr>, env = 0, events = []\<rparr>))
   = \<lparr>store = \<lparr>total_failures = 4, last_failure_dt = Some 9\<rparr>, env = 1,
      events = [Op_invoked, Failure_recorded]\<rparr> \<and>
   snd (snd (send \<lparr>circuit_breaker = CircuitBreaker_init memory_storage (Some always_failure)\<rparr>
     0 9 (returning_stub (ResponseVal 503))
     \<lparr>store = \<lparr>total_failures = 3, last_failure_dt = Some 0\<rparr>, env = 0, events = []\<rparr>))
   = \<lparr>store = \<lparr>total_failures = 4, last_failure_dt = Some 9\<rparr>, env = 1,
      events = [Op_invoked, Failure_recorded]\<rparr> \<and>
   snd (snd (send \<lparr>circuit_breaker = CircuitBreaker_init memory_storage (Some always_failure)\<rparr>
     0 9 (returning_stub (ResponseVal 200))
     \<lparr>store = \<lparr>total_failures = 3, last_failure_dt = Some 0\<rparr>, env = 0, events = []\<rparr>))
   = \<lparr>store = \<lparr>total_failures = 0, last_failure_dt = None\<rparr>, env = 1,
      events = [Op_invoked, Counter_reset]\<rparr> \<and>
   snd (snd (send \<lparr>circuit_breaker = CircuitBreaker_init memory_storage (Some always_failure)\<rparr>
     0 9 (returning_stub (ResponseVal 404))
     \<lparr>store = \<lparr>total_failures = 3, last_failure_dt = Some 0\<rparr>, env = 0, events = []\<rparr>))
   = \<lparr>store = \<lparr>total_failures = 0, last_failure_dt = None\<rparr>, env = 1,
      events = [Op_invoked, Counter_reset]\<rparr>"
  using adapter_checker_classifies [where
      self = "\<lparr>circuit_breaker = CircuitBreaker_init memory_storage (Some always_failure)\<rparr>"
      and now = 0 and t = 9
      and super_send = "raising_stub (PyExc (Derived ''ConnectionRefusedError'' ConnectionError_cls) [])"
      and w = "\<lparr>store = \<lparr>total_failures = 3, last_failure_dt = Some 0\<rparr>, env = 0, events = []\<rparr>"
      and st = State_closed
      and out = "Raised (PyExc (Derived ''ConnectionRefusedError'' ConnectionError_cls) [])"
      and env' = 1
      and r = "ExcVal (PyExc (Derived ''ConnectionRefusedError'' ConnectionError_cls) [])"
      and v = "ExcVal (PyExc (Derived ''ConnectionRefusedError'' ConnectionError_cls) [])"
      and sc = 503]
    adapter_checker_classifies [where
      self = "\<lparr>circuit_breaker = CircuitBreaker_init memory_storage (Some always_failure)\<rparr>"
      and now = 0 and t = 9 and super_send = "returning_stub (ResponseVal 503)"
      and w = "\<lparr>store = \<lparr>total_failures = 3, last_failure_dt = Some 0\<rparr>, env = 0, events = []\<rparr>"
      and st = State_closed and out = "Returned (ResponseVal 503)" and env' = 1
      and r = "ResponseVal 503" and v = "ResponseVal 404" and sc = 503]
    adapter_checker_classifies [where
      self = "\<lparr>circuit_breaker = CircuitBreaker_init memory_storage (Some always_failure)\<rparr>"
      and now = 0 and t = 9 and super_send = "returning_stub (ResponseVal 200)"
      and w = "\<lparr>store = \<lparr>total_failures = 3, last_failure_dt = Some 0\<rparr>, env = 0, events = []\<rparr>"
      and st = State_closed and out = "Returned (ResponseVal 200)" and env' = 1
      and r = "ResponseVal 200" and v = "ResponseVal 200" and sc = 503]
    adapter_checker_classifies [where
      self = "\<lparr>circuit_breaker = CircuitBreaker_init memory_storage (Some always_failure)\<rparr>"
      and now = 0 and t = 9 and super_send = "returning_stub (ResponseVal 404)"
      and w = "\<lparr>store = \<lparr>total_failures = 3, last_failure_dt = Some 0\<rparr>, env = 0, events = []\<rparr>"
      and st = State_closed and out = "Returned (ResponseVal 404)" and env' = 1
      and r = "ResponseVal 404" and v = "ResponseVal 404" and sc = 503]
  by (simp add: state_cases CircuitBreaker_init_def memory_storage_def returning_stub_def
      raising_stub_def captured_def issubclass_def has_failure_def send_def Let_def
      add_failure_checker_def call_def classify_and_finish_def check_failure_def
      record_failure_def reset_def)

text \<open>
  C7. The adapter installs \<^verbatim>\<open>has_failure\<close> before every send, and it classifies
  responses as the claim says. A connection-level failure, though, reaches it from the
  transport as a \<^verbatim>\<open>requests.exceptions.ConnectionError\<close>, and \<^verbatim>\<open>has_failure\<close>
  tests for the builtin \<^verbatim>\<open>ConnectionError\<close>: in every \<^verbatim>\<open>send\<close> that reaches the
  transport and meets that exception, it is classified as success, the counter is reset
  and no failure is recorded, and the exception is raised to the caller.
\<close>

theorem adapter_send_requests_connection_error:
  "state (circuit_breaker self) now (store w) = Inr st \<Longrightarrow> st \<noteq> State_open \<Longrightarrow>
   super_send (env w) = (Raised e, env') \<Longrightarrow> exc_class e = requests_ConnectionError \<Longrightarrow>
   \<not> isinstance (ExcVal e) ConnectionError_cls \<and>
   \<not> has_failure (ExcVal e) \<and>
   snd (send self now t super_send w) =
     (Inl e, reset (circuit_breaker self) (w\<lparr>env := env', events := events w @ [Op_invoked]\<rparr>)) \<and>
   events (snd (snd (send self now t super_send w))) = events w @ [Op_invoked, Counter_reset]"
proof -
  assume st: "state (circuit_breaker self) now (store w) = Inr st" "st \<noteq> State_open"
    and out: "super_send (env w) = (Raised e, env')"
    and cls: "exc_class e = requests_ConnectionError"
  have exc: "issubclass (exc_class e) Exception_cls"
    by (simp add: cls requests_ConnectionError_def issubclass_def)
  have not_conn: "\<not> isinstance (ExcVal e) ConnectionError_cls"
    by (simp add: cls requests_ConnectionError_def issubclass_def)
  then have not_failure: "\<not> has_failure (ExcVal e)"
    by (simp add: has_failure_iff)
  have cap: "captured (Raised e) = Some (ExcVal e)"
    using exc by (simp add: captured_def)
  have res: "snd (send self now t super_send w) =
     (Inl e, reset (circuit_breaker self) (w\<lparr>env := env', events := events w @ [Op_invoked]\<rparr>))"
    using send_captured [where self = self and now = now and w = w and st = st
        and super_send = super_send and out = "Raised e" and env' = env'
        and r = "ExcVal e" and t = t] st out cap exc not_failure
    by simp
  then have "events (snd (snd (send self now t super_send w))) =
      events w @ [Op_invoked, Counter_reset]"
    by (simp add: reset_def)
  with not_conn not_failure res show ?thesis by simp
qed

text \<open>
  An adapter whose breaker has three recorded failures; the transport raises
  \<^verbatim>\<open>requests.exceptions.ConnectionError\<close>: the counter goes back to zero.
\<close>

theorem adapter_send_requests_connection_error_witness:
  "send \<lparr>circuit_breaker = CircuitBreaker_init memory_storage None\<rparr> 0 9
     (raising_stub (PyExc requests_ConnectionError ''connection refused''))
     \<lparr>store = \<lparr>total_failures = 3, last_failure_dt = Some 0\<rparr>, env = 0, events = []\<rparr>
   = (\<lparr>circuit_breaker =
         CircuitBreaker_init memory_storage (Some (\<lambda>r. Inr (has_failure r)))\<rparr>,
      Inl (PyExc requests_ConnectionError ''connection refused''),
      \<lparr>store = \<lparr>total_failures = 0, last_failure_dt = None\<rparr>, env = 1,
       events = [Op_invoked, Counter_reset]\<rparr>) \<and>
   has_failure (ExcVal (PyExc requests_ConnectionError ''connection refused'')) = False"
  using adapter_send_requests_connection_error [where
      self = "\<lparr>circuit_breaker = CircuitBreaker_init memory_storage None\<rparr>"
      and now = 0 and t = 9
      and super_send = "raising_stub (PyExc requests_ConnectionError ''connection refused'')"
      and w = "\<lparr>store = \<lparr>total_failures = 3, last_failure_dt = Some 0\<rparr>, env = 0, events = []\<rparr>"
      and st = State_closed and e = "PyExc requests_ConnectionError ''connection refused''"
      and env' = 1]
  by (simp add: state_cases CircuitBreaker_init_def memory_storage_def raising_stub_def
      reset_def send_def Let_def add_failure_checker_def prod_eq_iff)

section \<open>Construction and the threshold\<close>

lemma bind_init_args_accepts:
  "bind_init_args args kwargs = Inr (s, fc) \<Longrightarrow>
   length args \<le> 2 \<and> set (map fst kwargs) \<subseteq> {''storage'', ''failure_checker''}"
  by (auto simp add: bind_init_args_def list_all_iff split: if_splits list.splits option.splits)

text \<open>
  C8, as amended. The constructor accepts a storage (required) and an optional failure
  checker, and nothing else: an argument list it accepts has at most two positional
  arguments and no keyword other than \<^verbatim>\<open>storage\<close> and \<^verbatim>\<open>failure_checker\<close>, and one
  without a storage is refused. The failure threshold is not an input: every breaker is
  constructed with threshold 100, whatever the storage and the checker, and neither
  \<^verbatim>\<open>add_failure_checker\<close> nor the adapter's \<^verbatim>\<open>send\<close> changes it.
\<close>

theorem constructor_has_no_threshold_input:
  "(bind_init_args args kwargs = Inr (s, fc) \<longrightarrow>
      length args \<le> 2 \<and> set (map fst kwargs) \<subseteq> {''storage'', ''failure_checker''}) \<and>
   bind_init_args [Storage_arg st] [] = Inr (Storage_arg st, None) \<and>
   bind_init_args [Storage_arg st, Checker_arg f] [] = Inr (Storage_arg st, Some (Checker_arg f)) \<and>
   bind_init_args [] [] = (Inl init_type_error :: pyexc + ('s ctor_arg \<times> 's ctor_arg option)) \<and>
   failure_threshold (CircuitBreaker_init st checker) = 100 \<and>
   storage (CircuitBreaker_init st checker) = st \<and>
   failure_checker (CircuitBreaker_init st checker) = checker \<and>
   failure_threshold (add_failure_checker self f) = failure_threshold self \<and>
   failure_threshold (circuit_breaker (fst (send adapter now t super_send w))) =
     failure_threshold (circuit_breaker adapter)"
  using bind_init_args_accepts [of args kwargs s fc]
  by (simp add: bind_init_args_def CircuitBreaker_init_def add_failure_checker_def send_def
      Let_def)

text \<open>
  \<^verbatim>\<open>CircuitBreaker(storage, failure_checker=always_failure)\<close> is accepted and has
  threshold 100.
\<close>

theorem constructor_has_no_threshold_input_witness:
  "bind_init_args [Storage_arg memory_storage] [(''failure_checker'', Checker_arg always_failure)]
     = Inr (Storage_arg memory_storage, Some (Checker_arg always_failure)) \<and>
   length [Storage_arg memory_storage] \<le> 2 \<and>
   set (map fst [(''failure_checker'', Checker_arg always_failure)])
     \<subseteq> {''storage'', ''failure_checker''} \<and>
   failure_threshold (CircuitBreaker_init memory_storage (Some always_failure)) = 100"
  using constructor_has_no_threshold_input [where args = "[Storage_arg memory_storage]"
      and kwargs = "[(''failure_checker'', Checker_arg always_failure)]"
      and s = "Storage_arg memory_storage" and fc = "Some (Checker_arg always_failure)"
      and st = memory_storage and checker = "Some always_failure" and f = always_failure
      and self = "CircuitBreaker_init memory_storage None"
      and adapter = "\<lparr>circuit_breaker = CircuitBreaker_init memory_storage None\<rparr>"
      and now = 0 and t = 0 and super_send = "returning_stub (ResponseVal 200)"
      and w = "\<lparr>store = \<lparr>total_failures = 0, last_failure_dt = None\<rparr>, env = 0, events = []\<rparr>"]
  by (simp add: bind_init_args_def)

text \<open>
  The claim as stated fails: a threshold passed as a third positional argument, or under
  the keyword \<^verbatim>\<open>failure_threshold\<close>, is refused with a \<^verbatim>\<open>TypeError\<close>.
\<close>

theorem constructor_threshold_counterexample:
  "bind_init_args [Storage_arg memory_storage, None_arg, Int_arg 50] [] = Inl init_type_error \<and>
   bind_init_args [Storage_arg memory_storage] [(''failure_threshold'', Int_arg 50)]
     = Inl init_type_error \<and>
   exc_class init_type_error = TypeError_cls"
  by (simp add: bind_init_args_def init_type_error_def)

section \<open>Scenario A\<close>

lemma call_failing_closed:
  assumes "total_failures (store w) \<le> 100" "issubclass (exc_class boom) Exception_cls"
  shows "call (CircuitBreaker_init memory_storage (Some always_failure)) now t
           (raising_stub boom) w =
         (Inl boom,
          w\<lparr>store := \<lparr>total_failures = total_failures (store w) + 1, last_failure_dt = Some t\<rparr>,
            env := Suc (env w),
            events := events w @ [Op_invoked, Failure_recorded]\<rparr>)"
  using assms
  by (simp add: call_def state_cases CircuitBreaker_init_def memory_storage_def
      raising_stub_def classify_and_finish_def check_failure_def always_failure_def
      record_failure_def Let_def)

lemma repeat_call_failing:
  assumes "issubclass (exc_class boom) Exception_cls"
  shows "total_failures (store w) + int (length ts) \<le> 101 \<Longrightarrow>
    repeat_call (CircuitBreaker_init memory_storage (Some always_failure)) ts
      (raising_stub boom) w =
    (replicate (length ts) (Inl boom),
     w\<lparr>store := \<lparr>total_failures = total_failures (store w) + int (length ts),
                 last_failure_dt = (if ts = [] then last_failure_dt (store w)
                                    else Some (snd (last ts)))\<rparr>,
       env := env w + length ts,
       events := events w @ concat (replicate (length ts) [Op_invoked, Failure_recorded])\<rparr>)"
proof (induction ts arbitrary: w)
  case Nil
  then show ?case by simp
next
  case (Cons p ts)
  obtain now t where p: "p = (now, t)" by (cases p)
  let ?w1 = "w\<lparr>store := \<lparr>total_failures = total_failures (store w) + 1,
                           last_failure_dt = Some t\<rparr>,
                 env := Suc (env w),
                 events := events w @ [Op_invoked, Failure_recorded]\<rparr>"
  have le: "total_failures (store w) \<le> 100" using Cons.prems by simp
  have step: "call (CircuitBreaker_init memory_storage (Some always_failure)) now t
           (raising_stub boom) w = (Inl boom, ?w1)"
    using le assms by (rule call_failing_closed)
  have rest: "total_failures (store ?w1) + int (length ts) \<le> 101"
    using Cons.prems by simp
  show ?case
    by (simp add: p step Cons.IH [OF rest])
qed

text \<open>
  C3. A breaker with the default threshold 100, \<open>always_failure\<close> as its checker and a
  zeroed in-memory counter, around a stub that always raises \<open>boom\<close> (an instance of
  \<^verbatim>\<open>Exception\<close>): each of 101 calls, at any clock readings \<open>ts\<close>, invokes the stub and
  records a failure, so that the count is 101 and the stub has run 101 times. A 102nd call
  made after the last failure time raises at once and does not invoke the stub. What it
  raises is \<^verbatim>\<open>CircuitBreakerError()\<close>, which is not an instance of
  \<^verbatim>\<open>CircuitBreakerOpenedError\<close>.
\<close>

theorem scenario_A_102nd_call:
  assumes "length ts = 101" "issubclass (exc_class boom) Exception_cls" "snd (last ts) < now"
  shows "repeat_call (CircuitBreaker_init memory_storage (Some always_failure)) ts
      (raising_stub boom)
      \<lparr>store = \<lparr>total_failures = 0, last_failure_dt = None\<rparr>, env = 0, events = []\<rparr> =
    (replicate 101 (Inl boom),
     \<lparr>store = \<lparr>total_failures = 101, last_failure_dt = Some (snd (last ts))\<rparr>, env = 101,
      events = concat (replicate 101 [Op_invoked, Failure_recorded])\<rparr>) \<and>
    call (CircuitBreaker_init memory_storage (Some always_failure)) now t (raising_stub boom)
     \<lparr>store = \<lparr>total_failures = 101, last_failure_dt = Some (snd (last ts))\<rparr>, env = 101,
      events = concat (replicate 101 [Op_invoked, Failure_recorded])\<rparr> =
    (Inl (PyExc CircuitBreakerError_cls []),
     \<lparr>store = \<lparr>total_failures = 101, last_failure_dt = Some (snd (last ts))\<rparr>, env = 101,
      events = concat (replicate 101 [Op_invoked, Failure_recorded])\<rparr>) \<and>
    \<not> isinstance (ExcVal (PyExc CircuitBreakerError_cls [])) CircuitBreakerOpenedError_cls"
proof -
  let ?w0 = "\<lparr>store = \<lparr>total_failures = 0, last_failure_dt = None\<rparr>, env = 0::nat,
              events = []\<rparr>"
  let ?w101 = "\<lparr>store = \<lparr>total_failures = 101, last_failure_dt = Some (snd (last ts))\<rparr>,
                env = 101::nat, events = concat (replicate 101 [Op_invoked, Failure_recorded])\<rparr>"
  have ne: "ts \<noteq> []" using assms(1) by auto
  have "total_failures (store ?w0) + int (length ts) \<le> 101"
    using assms(1) by simp
  from repeat_call_failing [OF assms(2) this]
  have run: "repeat_call (CircuitBreaker_init memory_storage (Some always_failure)) ts
      (raising_stub boom) ?w0 = (replicate 101 (Inl boom), ?w101)"
    using assms(1) ne by simp
  have "state (CircuitBreaker_init memory_storage (Some always_failure)) now (store ?w101)
          = Inr State_open"
    using assms(3) by (simp add: state_cases CircuitBreaker_init_def memory_storage_def)
  then have rejected: "call (CircuitBreaker_init memory_storage (Some always_failure)) now t
      (raising_stub boom) ?w101 = (Inl (PyExc CircuitBreakerError_cls []), ?w101)"
    by (rule call_open)
  have "\<not> isinstance (ExcVal (PyExc CircuitBreakerError_cls [])) CircuitBreakerOpenedError_cls"
    by (simp add: issubclass_def)
  with run rejected show ?thesis by simp
qed

text \<open>
  The 101 calls at times 1 to 101 and the 102nd at time 102, with a stub raising an
  instance of a class derived from \<^verbatim>\<open>Exception\<close>.
\<close>

theorem scenario_A_102nd_call_witness:
  "repeat_call (CircuitBreaker_init memory_storage (Some always_failure))
      (map (\<lambda>i. (int i, int i)) [1..<102])
      (raising_stub (PyExc (Derived ''Timeout'' Exception_cls) ''slow''))
      \<lparr>store = \<lparr>total_failures = 0, last_failure_dt = None\<rparr>, env = 0, events = []\<rparr> =
    (replicate 101 (Inl (PyExc (Derived ''Timeout'' Exception_cls) ''slow'')),
     \<lparr>store = \<lparr>total_failures = 101, last_failure_dt = Some 101\<rparr>, env = 101,
      events = concat (replicate 101 [Op_invoked, Failure_recorded])\<rparr>) \<and>
    call (CircuitBreaker_init memory_storage (Some always_failure)) 102 102
     (raising_stub (PyExc (Derived ''Timeout'' Exception_cls) ''slow''))
     \<lparr>store = \<lparr>total_failures = 101, last_failure_dt = Some 101\<rparr>, env = 101,
      events = concat (replicate 101 [Op_invoked, Failure_recorded])\<rparr> =
    (Inl (PyExc CircuitBreakerError_cls []),
     \<lparr>store = \<lparr>total_failures = 101, last_failure_dt = Some 101\<rparr>, env = 101,
      events = concat (replicate 101 [Op_invoked, Failure_recorded])\<rparr>) \<and>
    \<not> isinstance (ExcVal (PyExc CircuitBreakerError_cls [])) CircuitBreakerOpenedError_cls"
proof -
  have len: "length (map (\<lambda>i. (int i, int i)) [1..<102]) = 101" by simp
  have exc: "issubclass (exc_class (PyExc (Derived ''Timeout'' Exception_cls) ''slow''))
               Exception_cls"
    by (simp add: issubclass_def)
  have lst: "snd (last (map (\<lambda>i. (int i, int i)) [1..<102])) = 101"
    by (simp add: last_map)
  then have after: "snd (last (map (\<lambda>i. (int i, int i)) [1..<102])) < 102" by simp
  show ?thesis
    using scenario_A_102nd_call [OF len exc after, of 102] lst by simp
qed

end
